theory Spec2Isabelle
  imports Main "HOL-Library.Word"
begin

unbundle bit_operations_syntax

section \<open>The winspool.drv boundary\<close>

text \<open>
  \<^verbatim>\<open>printer_windows.go\<close> drives the Windows spooler through eight procedures of
  \<^verbatim>\<open>winspool.drv\<close>. The spooler is outside the program, so it is a parameter of the
  model: a function that answers a call, given the calls made so far. Each operation
  threads the list of calls it has issued (the trace), which is what the statements
  about "which OS calls are made, in which order" are about. The procedures are taken to
  resolve (\<^verbatim>\<open>LazyProc.Call\<close> panics when the library or the procedure is missing).
  \<^verbatim>\<open>uintptr\<close> and \<^verbatim>\<open>syscall.Handle\<close> are 64 bits wide, as on windows/amd64.
\<close>

type_synonym byte = "8 word"
type_synonym uintptr = "64 word"
type_synonym Handle = "64 word"
type_synonym Errno = nat
type_synonym utf16 = "16 word list"

record DOC_INFO_1 =
  DocName :: string
  OutputFile :: "string option"
  Datatype :: string

record PRINTER_INFO_4 =
  PrinterName :: "utf16 option"
  ServerName :: "utf16 option"
  Attributes :: "32 word"

text \<open>
  The calls, each with the arguments the source passes by value or by pointer to data it
  has filled in: the printer name; the handle, the level and the document information;
  the handle; the handle and the bytes; the flags, the level and the size of the buffer.
\<close>

datatype os_call =
    OpenPrinterW string
  | StartDocPrinterW Handle "32 word" DOC_INFO_1
  | StartPagePrinter Handle
  | WritePrinter Handle "byte list"
  | EndPagePrinter Handle
  | EndDocPrinter Handle
  | ClosePrinter Handle
  | EnumPrintersW "32 word" "32 word" "32 word"

text \<open>
  What a call gives back: the first result of \<^verbatim>\<open>LazyProc.Call\<close> (\<open>ret\<close>, zero for
  failure), its third result (\<open>lasterr\<close>, the error of the call), and the contents of
  the variables the call was given pointers to, read after the call: the printer handle,
  the count of bytes written, the buffer size needed, the count of entries returned and
  the \<^verbatim>\<open>PRINTER_INFO_4\<close> entry read at each index of the buffer (a name is \<open>None\<close>
  for a nil pointer, else the UTF-16 units stored at it).
\<close>

record os_reply =
  ret :: uintptr
  lasterr :: Errno
  phPrinter :: Handle
  pcWritten :: "32 word"
  pcbNeeded :: "32 word"
  pcReturned :: "32 word"
  pPrinterEnum :: "nat \<Rightarrow> PRINTER_INFO_4"

type_synonym os = "os_call list \<Rightarrow> os_call \<Rightarrow> os_reply"

definition Call :: "os \<Rightarrow> os_call list \<Rightarrow> os_call \<Rightarrow> os_reply \<times> os_call list" where
  "Call os tr c = (os tr c, tr @ [c])"

section \<open>Errors and panics\<close>

text \<open>
  One constructor for each \<^verbatim>\<open>fmt.Errorf\<close> of the source, carrying the wrapped OS
  error. \<open>PrintJobNotStarted\<close> is the error of a \<^verbatim>\<open>Write\<close> outside the started job
  (the specification's ProtocolStateError), \<open>FailedToWrite\<close> the error of a failed
  \<^verbatim>\<open>WritePrinter\<close> (its TransportWriteError), \<open>FailedToClosePrinter\<close> the error of a
  failed \<^verbatim>\<open>ClosePrinter\<close> (its TeardownError). \<open>InvalidArgument\<close> belongs to the
  command encoder.
\<close>

datatype error =
    InvalidPrinterName
  | FailedToOpenPrinter string Errno
  | FailedToCreateDocName
  | FailedToCreateDatatype
  | FailedToStartDocument Errno
  | FailedToStartPage Errno
  | PrintJobNotStarted
  | FailedToWrite Errno
  | ReadNotSupported
  | FailedToClosePrinter Errno
  | FailedToEnumerate Errno
  | InvalidArgument

datatype panic = IndexOutOfRange | SliceBoundsOutOfRange

datatype 'a outcome = Panics panic | Returns 'a

section \<open>WindowsPrinter\<close>

record WindowsPrinter =
  name :: string
  handle :: Handle
  buffer :: "byte list"
  jobStarted :: bool

type_synonym world = "WindowsPrinter \<times> os_call list"

text \<open>
  \<^verbatim>\<open>syscall.UTF16PtrFromString\<close> fails (with EINVAL) exactly on a string holding a
  NUL byte; otherwise the pointer stands for the string.
\<close>

definition UTF16PtrFromString :: "string \<Rightarrow> string option" where
  "UTF16PtrFromString s = (if CHR 0x00 \<in> set s then None else Some s)"

text \<open>
  \<^verbatim>\<open>syscall.UTF16ToString\<close> on the 1024 units at a pointer: the units before the
  first NUL. The names stay UTF-16 unit sequences in the model.
\<close>

definition UTF16ToString :: "utf16 \<Rightarrow> utf16" where
  "UTF16ToString s = takeWhile (\<lambda>u. u \<noteq> 0) (take 1024 s)"

definition startDoc :: "os \<Rightarrow> world \<Rightarrow> error option \<times> world" where
  "startDoc os s =
     (case s of (wp, tr) \<Rightarrow>
      (case UTF16PtrFromString ''ESC/POS Document'' of
         None \<Rightarrow> (Some FailedToCreateDocName, wp, tr)
       | Some docName \<Rightarrow>
      (case UTF16PtrFromString ''RAW'' of
         None \<Rightarrow> (Some FailedToCreateDatatype, wp, tr)
       | Some dtype \<Rightarrow>
      (let docInfo = \<lparr>DocName = docName, OutputFile = None, Datatype = dtype\<rparr> in
       case Call os tr (StartDocPrinterW (handle wp) 1 docInfo) of (r1, tr1) \<Rightarrow>
         if ret r1 = 0 then (Some (FailedToStartDocument (lasterr r1)), wp, tr1)
         else
      (case Call os tr1 (StartPagePrinter (handle wp)) of (r2, tr2) \<Rightarrow>
         if ret r2 = 0 then (Some (FailedToStartPage (lasterr r2)), wp, tr2)
         else (None, wp\<lparr>jobStarted := True\<rparr>, tr2))))))"

text \<open>
  \<^verbatim>\<open>Write\<close> returns \<^verbatim>\<open>(int, error)\<close>. The arguments of the call are evaluated
  before the call: \<^verbatim>\<open>&p[0]\<close> panics on an empty slice, with no call made. The
  count is \<^verbatim>\<open>int(written)\<close>, the value of a \<^verbatim>\<open>uint32\<close> (a 64-bit \<^verbatim>\<open>int\<close>).
\<close>

definition Write :: "os \<Rightarrow> world \<Rightarrow> byte list \<Rightarrow> (int \<times> error option) outcome \<times> world" where
  "Write os s p =
     (case s of (wp, tr) \<Rightarrow>
      if \<not> jobStarted wp then (Returns (0, Some PrintJobNotStarted), wp, tr)
      else if p = [] then (Panics IndexOutOfRange, wp, tr)
      else
      (case Call os tr (WritePrinter (handle wp) p) of (r, tr1) \<Rightarrow>
         if ret r = 0 then (Returns (uint (pcWritten r), Some (FailedToWrite (lasterr r))), wp, tr1)
         else (Returns (uint (pcWritten r), None), wp\<lparr>buffer := buffer wp @ p\<rparr>, tr1)))"

definition Read :: "world \<Rightarrow> byte list \<Rightarrow> (int \<times> error option) \<times> world" where
  "Read s p = ((0, Some ReadNotSupported), s)"

text \<open>
  \<^verbatim>\<open>Close\<close>: the results of \<^verbatim>\<open>EndPagePrinter\<close> and \<^verbatim>\<open>EndDocPrinter\<close> are not
  assigned; only \<^verbatim>\<open>ClosePrinter\<close>'s is read.
\<close>

definition Close :: "os \<Rightarrow> world \<Rightarrow> error option \<times> world" where
  "Close os s =
     (case s of (wp, tr) \<Rightarrow>
      (case (if jobStarted wp then
               (case Call os tr (EndPagePrinter (handle wp)) of (r1, tr1) \<Rightarrow>
                (case Call os tr1 (EndDocPrinter (handle wp)) of (r2, tr2) \<Rightarrow>
                   (wp\<lparr>jobStarted := False\<rparr>, tr2)))
             else (wp, tr)) of (wp1, tr2) \<Rightarrow>
         if handle wp1 \<noteq> 0 then
           (case Call os tr2 (ClosePrinter (handle wp1)) of (r3, tr3) \<Rightarrow>
              if ret r3 = 0 then (Some (FailedToClosePrinter (lasterr r3)), wp1, tr3)
              else (None, wp1\<lparr>handle := 0\<rparr>, tr3))
         else (None, wp1, tr2)))"

definition Bytes :: "WindowsPrinter \<Rightarrow> byte list" where
  "Bytes wp = buffer wp"

text \<open>
  \<^verbatim>\<open>NewWindowsPrinter\<close> returns the \<^verbatim>\<open>Printer\<close> wrapping the transport, or an
  error; the model returns the transport itself.
\<close>

definition NewWindowsPrinter :: "os \<Rightarrow> os_call list \<Rightarrow> string \<Rightarrow> (error + WindowsPrinter) \<times> os_call list" where
  "NewWindowsPrinter os tr nm =
     (let wp = \<lparr>name = nm, handle = 0, buffer = [], jobStarted = False\<rparr> in
      case UTF16PtrFromString nm of
        None \<Rightarrow> (Inl InvalidPrinterName, tr)
      | Some namePtr \<Rightarrow>
      (case Call os tr (OpenPrinterW namePtr) of (r, tr1) \<Rightarrow>
         let wp1 = wp\<lparr>handle := phPrinter r\<rparr> in
         if ret r = 0 then (Inl (FailedToOpenPrinter nm (lasterr r)), tr1)
         else
         (case startDoc os (wp1, tr1) of
            (Some e, wp2, tr2) \<Rightarrow>
              (case Close os (wp2, tr2) of (ce, wp3, tr3) \<Rightarrow> (Inl e, tr3))
          | (None, wp2, tr2) \<Rightarrow> (Inr wp2, tr2))))"

section \<open>Enumeration\<close>

definition PRINTER_ENUM_LOCAL :: "32 word" where
  "PRINTER_ENUM_LOCAL = 0x00000002"

definition PRINTER_ENUM_CONNECTIONS :: "32 word" where
  "PRINTER_ENUM_CONNECTIONS = 0x00000004"

text \<open>
  The loop over the entries: \<^verbatim>\<open>for i := uint32(0); i < returned; i++\<close>, appending the
  name of each entry whose \<^verbatim>\<open>PrinterName\<close> is not nil.
\<close>

function parse_names :: "(nat \<Rightarrow> PRINTER_INFO_4) \<Rightarrow> nat \<Rightarrow> nat \<Rightarrow> utf16 list \<Rightarrow> utf16 list" where
  "parse_names info returned i printers =
     (if i < returned then
        parse_names info returned (Suc i)
          (case PrinterName (info i) of
             None \<Rightarrow> printers
           | Some nm \<Rightarrow> printers @ [UTF16ToString nm])
      else printers)"
  by pat_completeness auto
termination
  by (relation "measure (\<lambda>(info, returned, i, printers). returned - i)") auto

text \<open>
  \<^verbatim>\<open>GetInstalledPrinters\<close>: the first call asks for the size, its results unread but
  for \<^verbatim>\<open>needed\<close>. Slicing the \<^verbatim>\<open>[1 << 20]PRINTER_INFO_4\<close> array to \<^verbatim>\<open>returned\<close>
  panics beyond its length.
\<close>

definition GetInstalledPrinters :: "os \<Rightarrow> os_call list \<Rightarrow> (error + utf16 list) outcome \<times> os_call list" where
  "GetInstalledPrinters os tr =
     (let flags = PRINTER_ENUM_LOCAL OR PRINTER_ENUM_CONNECTIONS in
      case Call os tr (EnumPrintersW flags 4 0) of (r1, tr1) \<Rightarrow>
        let needed = pcbNeeded r1 in
        if needed = 0 then (Returns (Inr []), tr1)
        else
        (case Call os tr1 (EnumPrintersW flags 4 needed) of (r2, tr2) \<Rightarrow>
           if ret r2 = 0 then (Returns (Inl (FailedToEnumerate (lasterr r2))), tr2)
           else
             let returned = unat (pcReturned r2) in
             if returned > 2 ^ 20 then (Panics SliceBoundsOutOfRange, tr2)
             else (Returns (Inr (parse_names (pPrinterEnum r2) returned 0 [])), tr2)))"

section \<open>Runs of writes and the steps of a teardown\<close>

text \<open>
  A caller's sequence of \<^verbatim>\<open>Write\<close> calls on one transport, with the outcome of each.
  A panicking call changes nothing, and the run goes on with the next payload (as after a
  \<^verbatim>\<open>recover\<close>).
\<close>

fun Writes :: "os \<Rightarrow> world \<Rightarrow> byte list list \<Rightarrow> (int \<times> error option) outcome list \<times> world" where
  "Writes os s [] = ([], s)"
| "Writes os s (p # ps) =
     (case Write os s p of (r, s1) \<Rightarrow>
      (case Writes os s1 ps of (rs, s2) \<Rightarrow> (r # rs, s2)))"

text \<open>A write succeeded when it returned, with a nil error.\<close>

fun succeeded :: "(int \<times> error option) outcome \<Rightarrow> bool" where
  "succeeded (Returns (n, None)) = True"
| "succeeded (Returns (n, Some e)) = False"
| "succeeded (Panics x) = False"

text \<open>
  The teardown calls that apply to a transport, by the two facts it records: the framing
  calls (end of page, then end of document) when the job is started, then the release of
  the handle when there is one.
\<close>

definition framing_steps :: "WindowsPrinter \<Rightarrow> os_call list" where
  "framing_steps wp =
     (if jobStarted wp then [EndPagePrinter (handle wp), EndDocPrinter (handle wp)] else [])"

definition teardown_steps :: "WindowsPrinter \<Rightarrow> os_call list" where
  "teardown_steps wp =
     framing_steps wp @ (if handle wp \<noteq> 0 then [ClosePrinter (handle wp)] else [])"

text \<open>
  The error of the first failing call (\<open>ret\<close> zero) among calls issued in order after
  the trace \<open>tr\<close>.
\<close>

fun first_error :: "os \<Rightarrow> os_call list \<Rightarrow> os_call list \<Rightarrow> Errno option" where
  "first_error os tr [] = None"
| "first_error os tr (c # cs) =
     (if ret (os tr c) = 0 then Some (lasterr (os tr c)) else first_error os (tr @ [c]) cs)"

section \<open>The command encoder\<close>

definition GS :: byte where
  "GS = 0x1D"

text \<open>
  Modelled from the spec: \<^verbatim>\<open>SetCharacterSize\<close> is a method of \<^verbatim>\<open>Printer\<close>, whose
  file is not among the sources (only its callers are). The specification: each
  multiplier in [0,7]; encoded as one byte \<^verbatim>\<open>(width<<4 | height)\<close>, the parameter of
  \<^verbatim>\<open>GS ! n\<close>; values outside [0,7] fail with InvalidArgument, with no clamping.
\<close>

definition SetCharacterSize :: "int \<Rightarrow> int \<Rightarrow> error + byte list" where
  "SetCharacterSize width height =
     (if 0 \<le> width \<and> width \<le> 7 \<and> 0 \<le> height \<and> height \<le> 7
      then Inr [GS, 0x21, push_bit 4 (word_of_int width) OR word_of_int height]
      else Inl InvalidArgument)"

section \<open>Concrete spoolers and transports\<close>

definition ok_reply :: os_reply where
  "ok_reply = \<lparr>ret = 1, lasterr = 0, phPrinter = 0, pcWritten = 0, pcbNeeded = 0,
     pcReturned = 0,
     pPrinterEnum = (\<lambda>i. \<lparr>PrinterName = None, ServerName = None, Attributes = 0\<rparr>)\<rparr>"

definition fail_reply :: "Errno \<Rightarrow> os_reply" where
  "fail_reply e = ok_reply\<lparr>ret := 0, lasterr := e\<rparr>"

text \<open>A spooler where every call succeeds in full, with handle 7 and no printer listed.\<close>

definition os_ok :: os where
  "os_ok tr c =
     (case c of
        OpenPrinterW nm \<Rightarrow> ok_reply\<lparr>phPrinter := 7\<rparr>
      | WritePrinter h p \<Rightarrow> ok_reply\<lparr>pcWritten := of_nat (length p)\<rparr>
      | _ \<Rightarrow> ok_reply)"

definition os_endpage_fails :: os where
  "os_endpage_fails tr c = (case c of EndPagePrinter h \<Rightarrow> fail_reply 5 | _ \<Rightarrow> os_ok tr c)"

definition os_startpage_fails :: os where
  "os_startpage_fails tr c = (case c of StartPagePrinter h \<Rightarrow> fail_reply 6 | _ \<Rightarrow> os_ok tr c)"

text \<open>A spooler that reports success for a write and a count of 2 bytes.\<close>

definition os_short_write :: os where
  "os_short_write tr c =
     (case c of WritePrinter h p \<Rightarrow> ok_reply\<lparr>pcWritten := 2\<rparr> | _ \<Rightarrow> os_ok tr c)"

text \<open>A spooler whose second call fails when it is a write.\<close>

definition os_second_write_fails :: os where
  "os_second_write_fails tr c =
     (case c of
        WritePrinter h p \<Rightarrow> if length tr = 1 then fail_reply 29 else os_ok tr c
      | _ \<Rightarrow> os_ok tr c)"

text \<open>The document information \<open>startDoc\<close> passes.\<close>

definition raw_document :: DOC_INFO_1 where
  "raw_document = \<lparr>DocName = ''ESC/POS Document'', OutputFile = None, Datatype = ''RAW''\<rparr>"

definition wp_opened :: WindowsPrinter where
  "wp_opened = \<lparr>name = ''POS-80'', handle = 7, buffer = [], jobStarted = False\<rparr>"

definition wp_started :: WindowsPrinter where
  "wp_started = \<lparr>name = ''POS-80'', handle = 7, buffer = [], jobStarted = True\<rparr>"

section \<open>Properties of Write\<close>

text \<open>
  C3. In every state where the job is not started (\<open>jobStarted\<close> false, that is, any
  state other than PageStarted), \<open>Write\<close> returns count 0 with the error "print job
  not started", whatever the bytes (the empty slice too), and nothing changes: the
  transport (job state, handle, buffer) is the same and no OS call is made.
\<close>

theorem Write_not_started:
  "\<not> jobStarted wp \<Longrightarrow> Write os (wp, tr) p = (Returns (0, Some PrintJobNotStarted), wp, tr)"
  by (simp add: Write_def)

theorem Write_not_started_witness:
  "\<not> jobStarted wp_opened \<and>
   Write os_ok (wp_opened, []) [0x1B, 0x40] = (Returns (0, Some PrintJobNotStarted), wp_opened, [])"
  using Write_not_started [of wp_opened os_ok "[]" "[0x1B, 0x40]"]
  by (simp add: wp_opened_def)

text \<open>
  With the job started and a non-empty slice, \<open>Write\<close> makes exactly one
  \<^verbatim>\<open>WritePrinter\<close> call (no retry) and returns the count the OS stored; it returns an
  error exactly when the call returned zero, and only the return value of the call
  decides it.
\<close>

lemma Write_started:
  "jobStarted wp \<Longrightarrow> p \<noteq> [] \<Longrightarrow>
   Write os (wp, tr) p =
     (Returns (uint (pcWritten (os tr (WritePrinter (handle wp) p))),
               if ret (os tr (WritePrinter (handle wp) p)) = 0
               then Some (FailedToWrite (lasterr (os tr (WritePrinter (handle wp) p))))
               else None),
      if ret (os tr (WritePrinter (handle wp) p)) = 0 then wp
      else wp\<lparr>buffer := buffer wp @ p\<rparr>,
      tr @ [WritePrinter (handle wp) p])"
  by (simp add: Write_def Call_def)

text \<open>
  C2. A write that the OS reports as shorter than requested should fail with the write
  error. The source misses that case: the count stored by the OS is never compared with
  the length of the slice. Here the job is started, the spooler reports success and 2
  bytes written of the 5 requested, and \<open>Write\<close> returns the count 2 with a nil error
  after one call, and appends all 5 bytes to the capture buffer. That is outside the
  \<^verbatim>\<open>io.Writer\<close> contract the comment of \<^verbatim>\<open>WindowsPrinter\<close> names (a count below
  the length comes with a non-nil error), and \<open>Bytes\<close> then holds bytes that were not
  reported written.
\<close>

theorem Write_short_count_returns_nil:
  "jobStarted wp_started \<and>
   ret (os_short_write [] (WritePrinter (handle wp_started) [1, 2, 3, 4, 5])) \<noteq> 0 \<and>
   unat (pcWritten (os_short_write [] (WritePrinter (handle wp_started) [1, 2, 3, 4, 5])))
     < length [1, 2, 3, 4, 5 :: byte] \<and>
   Write os_short_write (wp_started, []) [1, 2, 3, 4, 5] =
     (Returns (2, None), wp_started\<lparr>buffer := [1, 2, 3, 4, 5]\<rparr>,
      [WritePrinter 7 [1, 2, 3, 4, 5]]) \<and>
   Bytes (wp_started\<lparr>buffer := [1, 2, 3, 4, 5]\<rparr>) = [1, 2, 3, 4, 5]"
  by (simp add: Write_def Call_def os_short_write_def wp_started_def ok_reply_def Bytes_def)

text \<open>
  C9. With the job started, \<open>Write\<close> of the empty slice panics (index out of range, at
  \<^verbatim>\<open>&p[0]\<close>): it returns no result, and no OS call has been made.
\<close>

theorem Write_empty_panics:
  "jobStarted wp \<Longrightarrow> Write os (wp, tr) [] = (Panics IndexOutOfRange, wp, tr)"
  by (simp add: Write_def)

theorem Write_empty_panics_witness:
  "jobStarted wp_started \<and>
   Write os_ok (wp_started, []) [] = (Panics IndexOutOfRange, wp_started, [])"
  using Write_empty_panics [of wp_started os_ok "[]"]
  by (simp add: wp_started_def)

subsection \<open>The capture buffer\<close>

lemma Write_buffer:
  "Write os (wp, tr) p = (r, wp', tr') \<Longrightarrow>
   buffer wp' = buffer wp @ (if succeeded r then p else [])"
  by (auto simp: Write_def Call_def split: if_splits)

lemma Writes_buffer:
  "Writes os (wp, tr) ps = (rs, wp', tr') \<Longrightarrow>
   buffer wp' = buffer wp @ concat (map fst (filter (\<lambda>(p, r). succeeded r) (zip ps rs)))"
proof (induction ps arbitrary: wp tr rs wp' tr')
  case Nil
  then show ?case by simp
next
  case (Cons p ps)
  obtain r wp1 tr1 where w: "Write os (wp, tr) p = (r, wp1, tr1)"
    by (metis prod_cases3)
  obtain rs1 wp2 tr2 where ws: "Writes os (wp1, tr1) ps = (rs1, wp2, tr2)"
    by (metis prod_cases3)
  from Cons.prems w ws have eqs: "rs = r # rs1" "wp' = wp2" "tr' = tr2"
    by simp_all
  from Cons.IH [of wp1 tr1 rs1 wp2 tr2, OF ws] Write_buffer [OF w] eqs
  show ?case by simp
qed

text \<open>
  C10. After any sequence of \<open>Write\<close> calls, \<open>Bytes\<close> is what it was before, followed by
  the payloads of the calls that succeeded, in order (so, from the empty buffer of a new
  transport, exactly their concatenation); and a \<open>Write\<close> that does not succeed leaves
  \<open>Bytes\<close> as it was.
\<close>

theorem Bytes_concat_successful:
  "(\<forall>rs wp' tr'. Writes os (wp, tr) ps = (rs, wp', tr') \<longrightarrow>
      Bytes wp' = Bytes wp @ concat (map fst (filter (\<lambda>(p, r). succeeded r) (zip ps rs)))) \<and>
   (\<forall>p r wp' tr'. Write os (wp, tr) p = (r, wp', tr') \<longrightarrow> \<not> succeeded r \<longrightarrow>
      Bytes wp' = Bytes wp)"
  using Writes_buffer Write_buffer by (simp add: Bytes_def)

theorem Bytes_concat_successful_witness:
  "Writes os_second_write_fails (wp_started, []) [[1, 2], [3], [], [4, 5, 6]] =
     ([Returns (2, None), Returns (0, Some (FailedToWrite 29)), Panics IndexOutOfRange,
       Returns (3, None)],
      wp_started\<lparr>buffer := [1, 2, 4, 5, 6]\<rparr>,
      [WritePrinter 7 [1, 2], WritePrinter 7 [3], WritePrinter 7 [4, 5, 6]]) \<and>
   Bytes (wp_started\<lparr>buffer := [1, 2, 4, 5, 6]\<rparr>) = Bytes wp_started @ [1, 2] @ [4, 5, 6] \<and>
   Write os_second_write_fails (wp_started\<lparr>buffer := [1, 2]\<rparr>, [WritePrinter 7 [1, 2]]) [3] =
     (Returns (0, Some (FailedToWrite 29)), wp_started\<lparr>buffer := [1, 2]\<rparr>,
      [WritePrinter 7 [1, 2], WritePrinter 7 [3]])"
  using Bytes_concat_successful
    [of os_second_write_fails wp_started "[]" "[[1, 2], [3], [], [4, 5, 6]]"]
  by (simp add: Write_def Call_def os_second_write_fails_def os_ok_def wp_started_def
      ok_reply_def fail_reply_def Bytes_def)

section \<open>Properties of Close\<close>

lemma Close_result:
  "Close os (wp, tr) =
     (if handle wp \<noteq> 0 \<and> ret (os (tr @ framing_steps wp) (ClosePrinter (handle wp))) = 0
      then Some (FailedToClosePrinter
             (lasterr (os (tr @ framing_steps wp) (ClosePrinter (handle wp)))))
      else None,
      wp\<lparr>jobStarted := False,
         handle := (if ret (os (tr @ framing_steps wp) (ClosePrinter (handle wp))) = 0
                    then handle wp else 0)\<rparr>,
      tr @ teardown_steps wp)"
  by (simp add: Close_def Call_def framing_steps_def teardown_steps_def)

text \<open>
  C1, as the source has it. Whatever the spooler answers, \<open>Close\<close> issues the teardown
  calls that apply to the transport, in order: end of page and end of document when the
  job is started, then the release of the handle when there is one. The error it returns
  is the error of the release alone: it is nil unless \<^verbatim>\<open>ClosePrinter\<close> was called and
  returned zero. The results of the two framing calls are not read.
\<close>

theorem Close_teardown:
  "snd (snd (Close os (wp, tr))) = tr @ teardown_steps wp \<and>
   fst (Close os (wp, tr)) =
     (if handle wp \<noteq> 0 \<and> ret (os (tr @ framing_steps wp) (ClosePrinter (handle wp))) = 0
      then Some (FailedToClosePrinter
             (lasterr (os (tr @ framing_steps wp) (ClosePrinter (handle wp)))))
      else None)"
  by (simp add: Close_result)

theorem Close_teardown_witness:
  "snd (snd (Close os_endpage_fails (wp_started, []))) =
     [EndPagePrinter 7, EndDocPrinter 7, ClosePrinter 7] \<and>
   fst (Close os_endpage_fails (wp_started, [])) = None"
  using Close_teardown [of os_endpage_fails wp_started "[]"]
  by (simp add: teardown_steps_def framing_steps_def wp_started_def
      os_endpage_fails_def os_ok_def ok_reply_def)

text \<open>
  C1, as the claim states it, fails: the end of page fails with error 5, the first error
  among the three teardown calls, and \<open>Close\<close> returns nil.
\<close>

theorem Close_first_error_counterexample:
  "first_error os_endpage_fails [] (teardown_steps wp_started) = Some 5 \<and>
   fst (Close os_endpage_fails (wp_started, [])) = None"
  by (simp add: Close_def Call_def teardown_steps_def framing_steps_def wp_started_def
      os_endpage_fails_def os_ok_def fail_reply_def ok_reply_def)

text \<open>
  C4. After a \<open>Close\<close> that returned nil, a second \<open>Close\<close> returns nil, makes no OS call
  (the trace is the same, whatever the spooler would answer) and leaves the transport as
  it is.
\<close>

theorem Close_idempotent:
  "Close os (wp, tr) = (None, wp', tr') \<Longrightarrow> Close os' (wp', tr') = (None, wp', tr')"
  by (auto simp: Close_def Call_def split: if_splits)

theorem Close_idempotent_witness:
  "Close os_ok (wp_started, []) =
     (None, wp_opened\<lparr>handle := 0\<rparr>, [EndPagePrinter 7, EndDocPrinter 7, ClosePrinter 7]) \<and>
   Close os_endpage_fails
       (wp_opened\<lparr>handle := 0\<rparr>, [EndPagePrinter 7, EndDocPrinter 7, ClosePrinter 7]) =
     (None, wp_opened\<lparr>handle := 0\<rparr>, [EndPagePrinter 7, EndDocPrinter 7, ClosePrinter 7])"
proof -
  have first: "Close os_ok (wp_started, []) =
     (None, wp_opened\<lparr>handle := 0\<rparr>, [EndPagePrinter 7, EndDocPrinter 7, ClosePrinter 7])"
    by (simp add: Close_def Call_def wp_started_def wp_opened_def os_ok_def ok_reply_def)
  from Close_idempotent [OF first, of os_endpage_fails] first show ?thesis by simp
qed

text \<open>
  C5. For a transport that holds a handle and has no job started (only the open
  succeeded), \<open>Close\<close> makes one OS call, the release of that handle: no end of page,
  no end of document.
\<close>

theorem Close_after_Open_only:
  "\<not> jobStarted wp \<Longrightarrow> handle wp \<noteq> 0 \<Longrightarrow>
   snd (snd (Close os (wp, tr))) = tr @ [ClosePrinter (handle wp)]"
  by (simp add: Close_def Call_def)

theorem Close_after_Open_only_witness:
  "\<not> jobStarted wp_opened \<and> handle wp_opened \<noteq> 0 \<and>
   snd (snd (Close os_ok (wp_opened, [OpenPrinterW ''POS-80'']))) =
     [OpenPrinterW ''POS-80'', ClosePrinter 7]"
  using Close_after_Open_only [of wp_opened os_ok "[OpenPrinterW ''POS-80'']"]
  by (simp add: wp_opened_def)

section \<open>Construction\<close>

lemma startDoc_fails:
  "startDoc os (wp, tr) = (Some e, wp2, tr2) \<Longrightarrow> wp2 = wp"
  by (auto simp: startDoc_def Call_def UTF16PtrFromString_def Let_def split: if_splits)

lemma startDoc_fails_iff:
  "fst (startDoc os (wp, tr)) \<noteq> None \<longleftrightarrow>
     ret (os tr (StartDocPrinterW (handle wp) 1 raw_document)) = 0 \<or>
     ret (os (tr @ [StartDocPrinterW (handle wp) 1 raw_document])
            (StartPagePrinter (handle wp))) = 0"
  by (simp add: startDoc_def Call_def UTF16PtrFromString_def raw_document_def Let_def)

text \<open>
  C8. When the name is valid, \<^verbatim>\<open>OpenPrinterW\<close> succeeds with a handle \<open>h\<close> (not null)
  and \<open>startDoc\<close> then fails (at the start of the document or of the page),
  \<open>NewWindowsPrinter\<close> returns \<open>startDoc\<close>'s error, and its last OS call, after those of
  \<open>startDoc\<close>, is the release \<^verbatim>\<open>ClosePrinter\<close> of \<open>h\<close>.
\<close>

theorem NewWindowsPrinter_releases_handle:
  assumes "CHR 0x00 \<notin> set nm"
    and "ret (os tr (OpenPrinterW nm)) \<noteq> 0"
    and "phPrinter (os tr (OpenPrinterW nm)) = h"
    and "h \<noteq> 0"
    and "startDoc os (\<lparr>name = nm, handle = h, buffer = [], jobStarted = False\<rparr>,
           tr @ [OpenPrinterW nm]) = (Some e, wp2, tr2)"
  shows "NewWindowsPrinter os tr nm = (Inl e, tr2 @ [ClosePrinter h])"
proof -
  from assms(5) have wp2: "wp2 = \<lparr>name = nm, handle = h, buffer = [], jobStarted = False\<rparr>"
    by (rule startDoc_fails)
  have "snd (snd (Close os (wp2, tr2))) = tr2 @ [ClosePrinter h]"
    using assms(4) by (simp add: wp2 Close_def Call_def)
  then obtain ce wp3 where cl: "Close os (wp2, tr2) = (ce, wp3, tr2 @ [ClosePrinter h])"
    by (metis prod.collapse)
  show ?thesis
    using assms(1-3,5) cl
    by (simp add: NewWindowsPrinter_def UTF16PtrFromString_def Call_def)
qed

theorem NewWindowsPrinter_releases_handle_witness:
  "NewWindowsPrinter os_startpage_fails [] ''POS-80'' =
     (Inl (FailedToStartPage 6),
      [OpenPrinterW ''POS-80'', StartDocPrinterW 7 1 raw_document,
       StartPagePrinter 7, ClosePrinter 7])"
proof -
  have sd: "startDoc os_startpage_fails
      (\<lparr>name = ''POS-80'', handle = 7, buffer = [], jobStarted = False\<rparr>,
       [] @ [OpenPrinterW ''POS-80'']) =
      (Some (FailedToStartPage 6),
       \<lparr>name = ''POS-80'', handle = 7, buffer = [], jobStarted = False\<rparr>,
       [OpenPrinterW ''POS-80'', StartDocPrinterW 7 1 raw_document,
        StartPagePrinter 7])"
    by (simp add: startDoc_def Call_def UTF16PtrFromString_def os_startpage_fails_def
        os_ok_def ok_reply_def fail_reply_def raw_document_def Let_def)
  have nm: "CHR 0x00 \<notin> set ''POS-80''"
    by simp
  have op: "ret (os_startpage_fails [] (OpenPrinterW ''POS-80'')) \<noteq> 0"
    by (simp add: os_startpage_fails_def os_ok_def ok_reply_def)
  have h: "phPrinter (os_startpage_fails [] (OpenPrinterW ''POS-80'')) = 7"
    by (simp add: os_startpage_fails_def os_ok_def ok_reply_def)
  have h0: "(7 :: Handle) \<noteq> 0"
    by simp
  from NewWindowsPrinter_releases_handle [OF nm op h h0 sd] show ?thesis
    by simp
qed

section \<open>Enumeration\<close>

text \<open>
  C6. When the size query leaves the needed buffer size at zero (no printer installed),
  \<open>GetInstalledPrinters\<close> returns the empty list and a nil error, after that one call,
  whatever else the call answered.
\<close>

theorem GetInstalledPrinters_no_printers:
  "pcbNeeded (os tr (EnumPrintersW (PRINTER_ENUM_LOCAL OR PRINTER_ENUM_CONNECTIONS) 4 0)) = 0 \<Longrightarrow>
   GetInstalledPrinters os tr =
     (Returns (Inr []), tr @ [EnumPrintersW (PRINTER_ENUM_LOCAL OR PRINTER_ENUM_CONNECTIONS) 4 0])"
  by (simp add: GetInstalledPrinters_def Call_def)

theorem GetInstalledPrinters_no_printers_witness:
  "pcbNeeded (os_ok [] (EnumPrintersW (PRINTER_ENUM_LOCAL OR PRINTER_ENUM_CONNECTIONS) 4 0)) = 0 \<and>
   GetInstalledPrinters os_ok [] = (Returns (Inr []), [EnumPrintersW 6 4 0])"
  using GetInstalledPrinters_no_printers [of os_ok "[]"]
  by (simp add: os_ok_def ok_reply_def PRINTER_ENUM_LOCAL_def PRINTER_ENUM_CONNECTIONS_def)

section \<open>Character size\<close>

lemma size_byte:
  assumes "0 \<le> w" "w \<le> 7" "0 \<le> h" "h \<le> 7"
  shows "uint (push_bit 4 (word_of_int w) OR word_of_int h :: byte) = 16 * w + h"
proof -
  from assms have "w \<in> {0, 1, 2, 3, 4, 5, 6, 7}" "h \<in> {0, 1, 2, 3, 4, 5, 6, 7}"
    by auto
  then show ?thesis
    by auto
qed

text \<open>
  C7. With both multipliers in [0,7], \<open>SetCharacterSize\<close> gives \<^verbatim>\<open>GS ! n\<close> with the one
  parameter byte \<open>n = width<<4 | height\<close>, whose value is \<open>16 * width + height\<close> (nothing
  is lost in the byte); with either outside [0,7] it fails with InvalidArgument.
\<close>

theorem SetCharacterSize_encoding:
  "(0 \<le> w \<and> w \<le> 7 \<and> 0 \<le> h \<and> h \<le> 7 \<longrightarrow>
      (\<exists>n. SetCharacterSize w h = Inr [GS, 0x21, n] \<and>
           n = push_bit 4 (word_of_int w) OR word_of_int h \<and> uint n = 16 * w + h)) \<and>
   (\<not> (0 \<le> w \<and> w \<le> 7 \<and> 0 \<le> h \<and> h \<le> 7) \<longrightarrow> SetCharacterSize w h = Inl InvalidArgument)"
  using size_byte [of w h] by (simp add: SetCharacterSize_def)

theorem SetCharacterSize_encoding_witness:
  "SetCharacterSize 2 3 = Inr [GS, 0x21, 0x23] \<and> SetCharacterSize 8 0 = Inl InvalidArgument \<and>
   SetCharacterSize 0 (- 1) = Inl InvalidArgument"
  using SetCharacterSize_encoding [of 2 3] SetCharacterSize_encoding [of 8 0]
    SetCharacterSize_encoding [of 0 "- 1"]
  by simp

end
